theory Spec2Isabelle
  imports Main
begin

section \<open>Syntax trees, source units and metadata records\<close>

text \<open>
  The transformer of \<^verbatim>\<open>src/transform/transformer.ts\<close> works on the syntax tree of the
  TypeScript compiler. The tree is embedded with one constructor for each kind of node
  that the transformer inspects or builds, and \<open>OtherNode\<close> for every other kind, which
  is only traversed. A type node is opaque: the transformer hands it to the type checker
  and to the type generators and never looks inside, and no call expression is taken to
  occur inside a type node, so the traversal has nothing to do there.
\<close>

datatype type_node = TypeNode string

datatype node =
    Identifier string
  | StringLiteral string
  | ArrayLiteralExpression "node list"
  | ObjectLiteralExpression "node list"
  | PropertyAssignment string node
  | PropertyAccessExpression node string
  | CallExpression node "type_node list option" "node list"
  | ImportDeclaration "string list" string
  | VariableStatement string node
  | FunctionDeclaration string "(string \<times> string) list" type_node
  | OtherNode string "node list"

text \<open>
  \<open>StringLiteral\<close> stands for the string-literal-like nodes (a string literal or a
  template literal without substitutions). \<open>CallExpression e targs args\<close> has
  \<open>targs = None\<close> when the call is written without type arguments.
  \<open>ImportDeclaration names m\<close> is \<^verbatim>\<open>import { names } from "m"\<close>,
  \<open>VariableStatement x e\<close> is \<^verbatim>\<open>const x = e\<close>, and
  \<open>FunctionDeclaration f ps t\<close> is the exported, body-less signature
  \<^verbatim>\<open>export function f(ps): t\<close> with \<open>ps\<close> the (name, type) pairs.
\<close>

record SourceFile =
  fileName :: string
  statements :: "node list"

datatype ExampleType = ExampleValue string

record Info =
  signature :: string
  desc :: string
  params :: "(string \<times> string) list"
  name :: string
  examples :: "ExampleType list"

record symbol =
  sym_name :: string
  valueDeclaration :: nat

datatype error =
    MissingTypeArgument
  | UnknownVariable string
  | UnrepresentableType
  | JsTypeError
  | FsError string

text \<open>
  \<open>MissingTypeArgument\<close> is the error thrown with the message
  \<^verbatim>\<open>expects exactly one type parameter\<close>, \<open>UnknownVariable v\<close> the one with
  \<^verbatim>\<open>Unknown variable: v\<close>. \<open>JsTypeError\<close> is the run-time TypeError of JavaScript
  for a property read on \<^verbatim>\<open>undefined\<close>.
\<close>

section \<open>The host: type checker, helper modules, path library\<close>

text \<open>
  Everything the transformer imports from outside its own file is a field of the host:
  the helper modules of the repository (\<^verbatim>\<open>../template\<close>, \<^verbatim>\<open>../function-name\<close>,
  \<^verbatim>\<open>../type\<close>, \<^verbatim>\<open>../ast\<close>, \<^verbatim>\<open>../expression\<close>), the queries on the type checker,
  the printer, \<^verbatim>\<open>JSON.stringify\<close> and the \<^verbatim>\<open>path\<close> library. A type generator returns
  \<open>None\<close> where it throws on a type that it cannot represent.
\<close>

record host =
  extractVariables :: "string \<Rightarrow> string list"
  convertTemplate :: "string \<Rightarrow> string"
  generateUniqueFunctionName :: "string \<Rightarrow> string"
  convertToDynamicType :: "type_node \<Rightarrow> node option"
  makeTypeDirection :: "type_node \<Rightarrow> string option"
  makeExpressionFromString :: "string \<Rightarrow> node"
  identifierValue :: "string \<Rightarrow> ExampleType list option"
  getSymbolsInScope :: "node \<Rightarrow> symbol list"
  symbolTypeString :: "symbol \<Rightarrow> string"
  typeNodeString :: "type_node \<Rightarrow> string"
  printNode :: "node \<Rightarrow> string"
  jsonStringify :: "Info \<Rightarrow> string"
  path_dirname :: "string \<Rightarrow> string"
  path_basename :: "string \<Rightarrow> string"
  path_join :: "string list \<Rightarrow> string"

text \<open>
  \<open>symbolTypeString h symbol\<close> is
  \<^verbatim>\<open>checker.typeToString(checker.getTypeOfSymbolAtLocation(symbol, symbol.valueDeclaration))\<close>
  and \<open>typeNodeString h t\<close> is \<^verbatim>\<open>checker.typeToString(checker.getTypeAtLocation(t))\<close>.
\<close>

text \<open>
  Modelled from the spec: \<^verbatim>\<open>throwError\<close> of \<^verbatim>\<open>../common\<close> is not part of the
  transformer's file. The spec makes each of its uses a hard error that aborts the pass
  for the unit, so it returns the error and nothing after it runs.
\<close>

definition throwError :: "node \<Rightarrow> error \<Rightarrow> error + 'a" where
  "throwError node e = Inl e"

text \<open>
  Modelled from the spec: \<^verbatim>\<open>getIdentifierValue\<close> of \<^verbatim>\<open>../expression\<close> is not part of
  the transformer's file. The spec gives it the statically known value bound to the
  identifier, and the empty list, not an error, when the identifier cannot be resolved.
  \<open>identifierValue h x\<close> is the statically known value of \<open>x\<close>, if any.
\<close>

fun getIdentifierValue :: "host \<Rightarrow> node \<Rightarrow> ExampleType list" where
  "getIdentifierValue h (Identifier x) =
     (case identifierValue h x of Some v \<Rightarrow> v | None \<Rightarrow> [])"
| "getIdentifierValue h n = []"

section \<open>The file system\<close>

text \<open>
  A file system maps a path to what is there. \<^verbatim>\<open>mkdirSync\<close> and \<^verbatim>\<open>writeFileSync\<close>
  throw when the parent of the path is missing (\<^verbatim>\<open>ENOENT\<close>) or is a regular file
  (\<^verbatim>\<open>ENOTDIR\<close>), \<^verbatim>\<open>mkdirSync\<close> when the path exists (\<^verbatim>\<open>EEXIST\<close>),
  \<^verbatim>\<open>writeFileSync\<close> when the path is a directory (\<^verbatim>\<open>EISDIR\<close>).
\<close>

datatype fs_entry = Directory | File string

type_synonym filesystem = "string \<Rightarrow> fs_entry option"

definition existsSync :: "filesystem \<Rightarrow> string \<Rightarrow> bool" where
  "existsSync fs p = (fs p \<noteq> None)"

definition mkdirSync :: "host \<Rightarrow> filesystem \<Rightarrow> string \<Rightarrow> error + filesystem" where
  "mkdirSync h fs p =
     (if fs p \<noteq> None then Inl (FsError ''EEXIST'')
      else case fs (path_dirname h p) of
             None \<Rightarrow> Inl (FsError ''ENOENT'')
           | Some (File c) \<Rightarrow> Inl (FsError ''ENOTDIR'')
           | Some Directory \<Rightarrow> Inr (fs(p \<mapsto> Directory)))"

definition writeFileSync :: "host \<Rightarrow> filesystem \<Rightarrow> string \<Rightarrow> string \<Rightarrow> error + filesystem" where
  "writeFileSync h fs p content =
     (if fs p = Some Directory then Inl (FsError ''EISDIR'')
      else case fs (path_dirname h p) of
             None \<Rightarrow> Inl (FsError ''ENOENT'')
           | Some (File c) \<Rightarrow> Inl (FsError ''ENOTDIR'')
           | Some Directory \<Rightarrow> Inr (fs(p \<mapsto> File content)))"

section \<open>The transformer\<close>

definition MODULE_NAME :: string where
  "MODULE_NAME = ''ts-askit''"

text \<open>
  The two module-level variables \<^verbatim>\<open>functions\<close> and \<^verbatim>\<open>imports\<close>; both names are
  keywords of Isabelle, so the fields are \<open>pending_functions\<close> and \<open>pending_imports\<close>.
\<close>

record globals =
  pending_functions :: "node list"
  pending_imports :: "node list"

text \<open>
  During the traversal of one unit the state is the unit's \<^verbatim>\<open>info\<close> array and the two
  module-level variables.
\<close>

type_synonym tstate = "Info list \<times> globals"

definition createRequire :: "string \<Rightarrow> string \<Rightarrow> string list \<Rightarrow> node" where
  "createRequire jsName nm modNames =
     VariableStatement jsName
       (PropertyAccessExpression
          (CallExpression (Identifier ''require'') None (map StringLiteral modNames)) nm)"

definition typeConstructorNames :: "string list" where
  "typeConstructorNames =
     [''type'', ''array'', ''string'', ''number'', ''boolean'', ''object'', ''union'', ''literal'']"

definition update :: "host \<Rightarrow> filesystem \<Rightarrow> globals \<Rightarrow> SourceFile \<Rightarrow> SourceFile \<times> globals" where
  "update h fs g node =
     (if \<not> existsSync fs (fileName node) \<and> path_basename h (fileName node) \<noteq> ''<repl>.ts''
      then (node, g)
      else (node\<lparr>statements :=
                   pending_imports g
                   @ map (\<lambda>nm. createRequire (''__'' @ nm @ ''__'') nm [MODULE_NAME @ ''/types''])
                       typeConstructorNames
                   @ pending_functions g
                   @ statements node\<rparr>,
            g\<lparr>pending_imports := [], pending_functions := []\<rparr>))"

text \<open>\<^verbatim>\<open>Array.prototype.join\<close> on strings.\<close>

fun join :: "string \<Rightarrow> string list \<Rightarrow> string" where
  "join sep [] = []"
| "join sep [x] = x"
| "join sep (x # y # ys) = x @ sep @ join sep (y # ys)"

definition saveInfo :: "host \<Rightarrow> filesystem \<Rightarrow> string \<Rightarrow> Info list \<Rightarrow> error + filesystem" where
  "saveInfo h fs file_name info =
     (if length info = 0 then Inr fs
      else
        let dirName = path_dirname h file_name;
            baseName = path_basename h file_name;
            jsonlDirName = path_join h [dirName, ''askit'']
        in case (if \<not> existsSync fs jsonlDirName then mkdirSync h fs jsonlDirName else Inr fs) of
             Inl e \<Rightarrow> Inl e
           | Inr fs1 \<Rightarrow>
               let jsonlPath = path_join h [jsonlDirName, baseName @ ''.jsonl''];
                   jsonl = join [CHR 0x0A] (map (jsonStringify h) info)
               in writeFileSync h fs1 jsonlPath jsonl)"

fun isStringLiteralLike :: "node \<Rightarrow> bool" where
  "isStringLiteralLike (StringLiteral t) = True"
| "isStringLiteralLike n = False"

fun isIdentifier :: "node \<Rightarrow> bool" where
  "isIdentifier (Identifier x) = True"
| "isIdentifier n = False"

definition createTypeExpression :: "host \<Rightarrow> type_node \<Rightarrow> error + node" where
  "createTypeExpression h returnType =
     (case makeTypeDirection h returnType of
        None \<Rightarrow> Inl UnrepresentableType
      | Some typeString \<Rightarrow> Inr (makeExpressionFromString h typeString))"

fun rewriteDefineCall :: "host \<Rightarrow> tstate \<Rightarrow> node \<Rightarrow> error + node \<times> tstate" where
  "rewriteDefineCall h s (CallExpression expression typeArguments arguments) =
     (if length arguments > 0 \<and> \<not> isStringLiteralLike (arguments ! 0)
      then Inr (CallExpression expression typeArguments arguments, s)
      else case typeArguments of
             Some [returnType] \<Rightarrow>
               (case createTypeExpression h returnType of
                  Inl e \<Rightarrow> Inl e
                | Inr typeExpression \<Rightarrow>
                    Inr (CallExpression expression typeArguments (typeExpression # arguments), s))
           | _ \<Rightarrow> throwError (CallExpression expression typeArguments arguments) MissingTypeArgument)"
| "rewriteDefineCall h s n = Inr (n, s)"

definition makeVariableMapObject :: "string list \<Rightarrow> node" where
  "makeVariableMapObject variables =
     ObjectLiteralExpression (map (\<lambda>variable. PropertyAssignment variable (Identifier variable)) variables)"

definition makeModuleName :: "host \<Rightarrow> string \<Rightarrow> string \<Rightarrow> string \<times> string" where
  "makeModuleName h sourceFileName nm =
     (let sourceDir = path_dirname h sourceFileName;
          modulePath = path_join h [sourceDir, ''askit'', nm @ ''.ts''];
          moduleName = nm
      in (modulePath, moduleName))"

definition makeCall :: "string \<Rightarrow> string \<Rightarrow> node list \<Rightarrow> node" where
  "makeCall moduleName nm args =
     CallExpression (PropertyAccessExpression (Identifier (moduleName @ ''_1'')) nm) None args"

definition makeSignature :: "host \<Rightarrow> string \<Rightarrow> type_node \<Rightarrow> symbol list \<Rightarrow> node" where
  "makeSignature h nm type symbols =
     FunctionDeclaration nm (map (\<lambda>symbol. (sym_name symbol, symbolTypeString h symbol)) symbols) type"

text \<open>
  The \<^verbatim>\<open>variables.map\<close> of \<^verbatim>\<open>rewriteAskCall\<close> that looks each variable up among the
  symbols in scope, and throws at the first one that is not there.
\<close>

fun varSymbols :: "symbol list \<Rightarrow> string list \<Rightarrow> error + symbol list" where
  "varSymbols symbols [] = Inr []"
| "varSymbols symbols (variable # variables) =
     (case find (\<lambda>symbol. sym_name symbol = variable) symbols of
        None \<Rightarrow> Inl (UnknownVariable variable)
      | Some symbol \<Rightarrow>
          (case varSymbols symbols variables of
             Inl e \<Rightarrow> Inl e
           | Inr syms \<Rightarrow> Inr (symbol # syms)))"

text \<open>
  \<^verbatim>\<open>rewriteAskCall\<close>. After the two guards the source reads \<^verbatim>\<open>node.arguments[0]\<close> and
  then its \<^verbatim>\<open>text\<close>: with no argument the first is \<^verbatim>\<open>undefined\<close> and the second
  throws a TypeError. The first guard leaves no other node than a string literal there.
\<close>

fun rewriteAskCall :: "host \<Rightarrow> filesystem \<Rightarrow> string \<Rightarrow> tstate \<Rightarrow> node \<Rightarrow> error + node \<times> tstate" where
  "rewriteAskCall h fs sourceFileName s (CallExpression expression typeArguments arguments) =
     (if length arguments > 0 \<and> \<not> isStringLiteralLike (arguments ! 0)
      then Inr (CallExpression expression typeArguments arguments, s)
      else case typeArguments of
        Some [returnType] \<Rightarrow>
          (case arguments of
             StringLiteral text # rest \<Rightarrow>
               (let node = CallExpression expression typeArguments arguments;
                    template = StringLiteral text;
                    variables = extractVariables h text;
                    variableMapObject = makeVariableMapObject variables
                in case convertToDynamicType h returnType of
                     None \<Rightarrow> Inl UnrepresentableType
                   | Some typeExpression \<Rightarrow>
                       (let examplesNode =
                              (if length arguments \<ge> 2 then arguments ! 1
                               else ArrayLiteralExpression []);
                            symbols = getSymbolsInScope h node
                        in case varSymbols symbols variables of
                             Inl e \<Rightarrow> Inl e
                           | Inr syms \<Rightarrow>
                               (let paramTypeStrings = map (symbolTypeString h) syms;
                                    returnTypeString = typeNodeString h returnType;
                                    nm = generateUniqueFunctionName h
                                           (join ''_'' (text # paramTypeStrings @ [returnTypeString]));
                                    args = map (\<lambda>symbol. Identifier (sym_name symbol)) syms;
                                    decl = makeSignature h nm returnType syms;
                                    sig = printNode h decl;
                                    ps = map (\<lambda>symbol. (symbolTypeString h symbol, sym_name symbol)) syms;
                                    exs = (if length arguments \<ge> 2 \<and> isIdentifier (arguments ! 1)
                                           then getIdentifierValue h (arguments ! 1) else []);
                                    info' = fst s @ [\<lparr>signature = sig, desc = convertTemplate h text,
                                                      params = ps, name = nm, examples = exs\<rparr>];
                                    (modulePath, moduleName) = makeModuleName h sourceFileName nm
                                in if existsSync fs modulePath
                                   then
                                     (let importStatement =
                                            ImportDeclaration [nm] (''./askit/'' @ moduleName)
                                      in Inr (makeCall moduleName nm args,
                                              (info', (snd s)\<lparr>pending_imports := pending_imports (snd s) @ [importStatement]\<rparr>)))
                                   else
                                     Inr (CallExpression expression typeArguments
                                            [typeExpression, template, examplesNode, variableMapObject],
                                          (info', snd s)))))
           | _ \<Rightarrow> Inl JsTypeError)
      | _ \<Rightarrow> throwError (CallExpression expression typeArguments arguments) MissingTypeArgument)"
| "rewriteAskCall h fs sourceFileName s n = Inr (n, s)"

definition isAskCall :: "node \<Rightarrow> bool" where
  "isAskCall n =
     (case n of
        CallExpression (Identifier c) targs args \<Rightarrow> c \<in> set [''llm'', ''ask'']
      | _ \<Rightarrow> False)"

definition isDefineCall :: "node \<Rightarrow> bool" where
  "isDefineCall n =
     (case n of
        CallExpression (Identifier c) targs args \<Rightarrow> c \<in> set [''define'']
      | _ \<Rightarrow> False)"

text \<open>
  \<^verbatim>\<open>visit\<close>, with \<^verbatim>\<open>ts.visitEachChild\<close> written out for each kind of node: a marker
  call goes to its rewriter and the result is returned as it is; any other node is
  rebuilt from its visited children, left to right.
\<close>

fun visit :: "host \<Rightarrow> filesystem \<Rightarrow> string \<Rightarrow> tstate \<Rightarrow> node \<Rightarrow> error + node \<times> tstate"
  and visitNodes :: "host \<Rightarrow> filesystem \<Rightarrow> string \<Rightarrow> tstate \<Rightarrow> node list \<Rightarrow> error + node list \<times> tstate"
where
  "visit h fs fn s (CallExpression e targs args) =
     (if isAskCall (CallExpression e targs args)
      then rewriteAskCall h fs fn s (CallExpression e targs args)
      else if isDefineCall (CallExpression e targs args)
      then rewriteDefineCall h s (CallExpression e targs args)
      else case visit h fs fn s e of
             Inl err \<Rightarrow> Inl err
           | Inr (e', s1) \<Rightarrow>
               (case visitNodes h fs fn s1 args of
                  Inl err \<Rightarrow> Inl err
                | Inr (args', s2) \<Rightarrow> Inr (CallExpression e' targs args', s2)))"
| "visit h fs fn s (ArrayLiteralExpression es) =
     (case visitNodes h fs fn s es of
        Inl err \<Rightarrow> Inl err
      | Inr (es', s1) \<Rightarrow> Inr (ArrayLiteralExpression es', s1))"
| "visit h fs fn s (ObjectLiteralExpression ps) =
     (case visitNodes h fs fn s ps of
        Inl err \<Rightarrow> Inl err
      | Inr (ps', s1) \<Rightarrow> Inr (ObjectLiteralExpression ps', s1))"
| "visit h fs fn s (PropertyAssignment k v) =
     (case visit h fs fn s v of
        Inl err \<Rightarrow> Inl err
      | Inr (v', s1) \<Rightarrow> Inr (PropertyAssignment k v', s1))"
| "visit h fs fn s (PropertyAccessExpression e x) =
     (case visit h fs fn s e of
        Inl err \<Rightarrow> Inl err
      | Inr (e', s1) \<Rightarrow> Inr (PropertyAccessExpression e' x, s1))"
| "visit h fs fn s (VariableStatement x e) =
     (case visit h fs fn s e of
        Inl err \<Rightarrow> Inl err
      | Inr (e', s1) \<Rightarrow> Inr (VariableStatement x e', s1))"
| "visit h fs fn s (OtherNode k cs) =
     (case visitNodes h fs fn s cs of
        Inl err \<Rightarrow> Inl err
      | Inr (cs', s1) \<Rightarrow> Inr (OtherNode k cs', s1))"
| "visit h fs fn s (Identifier x) = Inr (Identifier x, s)"
| "visit h fs fn s (StringLiteral t) = Inr (StringLiteral t, s)"
| "visit h fs fn s (ImportDeclaration ns m) = Inr (ImportDeclaration ns m, s)"
| "visit h fs fn s (FunctionDeclaration f ps t) = Inr (FunctionDeclaration f ps t, s)"
| "visitNodes h fs fn s [] = Inr ([], s)"
| "visitNodes h fs fn s (n # ns) =
     (case visit h fs fn s n of
        Inl err \<Rightarrow> Inl err
      | Inr (n', s1) \<Rightarrow>
          (case visitNodes h fs fn s1 ns of
             Inl err \<Rightarrow> Inl err
           | Inr (ns', s2) \<Rightarrow> Inr (n' # ns', s2)))"

text \<open>
  The function that \<^verbatim>\<open>transformer\<close> returns for a source file: a fresh \<^verbatim>\<open>info\<close>, the
  traversal of the statements, \<^verbatim>\<open>saveInfo\<close>, then \<^verbatim>\<open>update\<close>. An error is thrown on
  to the caller; what the module-level variables hold after an error is not followed.
\<close>

definition transformer :: "host \<Rightarrow> filesystem \<Rightarrow> globals \<Rightarrow> SourceFile \<Rightarrow> error + SourceFile \<times> globals \<times> filesystem" where
  "transformer h fs g file =
     (case visitNodes h fs (fileName file) ([], g) (statements file) of
        Inl e \<Rightarrow> Inl e
      | Inr (stmts, (info, g1)) \<Rightarrow>
          (case saveInfo h fs (fileName file) info of
             Inl e \<Rightarrow> Inl e
           | Inr fs1 \<Rightarrow>
               (case update h fs1 g1 (file\<lparr>statements := stmts\<rparr>) of
                  (file', g2) \<Rightarrow> Inr (file', g2, fs1))))"

section \<open>Notions used to state the properties\<close>

text \<open>
  The metadata record that \<^verbatim>\<open>rewriteAskCall\<close> pushes for a call with return type
  \<open>returnType\<close>, template text \<open>text\<close>, further arguments \<open>rest\<close> and resolved
  symbols \<open>syms\<close>, written once so that the theorems can name it.
\<close>

definition askRecord :: "host \<Rightarrow> type_node \<Rightarrow> string \<Rightarrow> node list \<Rightarrow> symbol list \<Rightarrow> Info" where
  "askRecord h returnType text rest syms =
     \<lparr>signature =
        printNode h (makeSignature h
          (generateUniqueFunctionName h
             (join ''_'' (text # map (symbolTypeString h) syms @ [typeNodeString h returnType])))
          returnType syms),
      desc = convertTemplate h text,
      params = map (\<lambda>symbol. (symbolTypeString h symbol, sym_name symbol)) syms,
      name = generateUniqueFunctionName h
               (join ''_'' (text # map (symbolTypeString h) syms @ [typeNodeString h returnType])),
      examples = (case rest of
                    [] \<Rightarrow> []
                  | a # as \<Rightarrow> if isIdentifier a then getIdentifierValue h a else [])\<rparr>"

definition isMarker :: "node \<Rightarrow> bool" where
  "isMarker n = (isAskCall n \<or> isDefineCall n)"

text \<open>The rewriter that \<^verbatim>\<open>visit\<close> hands a marker call to.\<close>

definition rewriteMarker :: "host \<Rightarrow> filesystem \<Rightarrow> string \<Rightarrow> tstate \<Rightarrow> node \<Rightarrow> error + node \<times> tstate" where
  "rewriteMarker h fs fn s m =
     (if isAskCall m then rewriteAskCall h fs fn s m else rewriteDefineCall h s m)"

text \<open>
  \<open>all_markers n\<close> lists every marker call of the tree \<open>n\<close>, in the order of a
  left-to-right traversal; \<open>outer_markers n\<close> lists those that are not inside another
  marker call.
\<close>

fun all_markers :: "node \<Rightarrow> node list"
  and all_markers_list :: "node list \<Rightarrow> node list"
where
  "all_markers (CallExpression e targs args) =
     (if isMarker (CallExpression e targs args) then [CallExpression e targs args] else [])
     @ all_markers e @ all_markers_list args"
| "all_markers (ArrayLiteralExpression es) = all_markers_list es"
| "all_markers (ObjectLiteralExpression ps) = all_markers_list ps"
| "all_markers (PropertyAssignment k v) = all_markers v"
| "all_markers (PropertyAccessExpression e x) = all_markers e"
| "all_markers (VariableStatement x e) = all_markers e"
| "all_markers (OtherNode k cs) = all_markers_list cs"
| "all_markers (Identifier x) = []"
| "all_markers (StringLiteral t) = []"
| "all_markers (ImportDeclaration ns m) = []"
| "all_markers (FunctionDeclaration f ps t) = []"
| "all_markers_list [] = []"
| "all_markers_list (n # ns) = all_markers n @ all_markers_list ns"

fun outer_markers :: "node \<Rightarrow> node list"
  and outer_markers_list :: "node list \<Rightarrow> node list"
where
  "outer_markers (CallExpression e targs args) =
     (if isMarker (CallExpression e targs args) then [CallExpression e targs args]
      else outer_markers e @ outer_markers_list args)"
| "outer_markers (ArrayLiteralExpression es) = outer_markers_list es"
| "outer_markers (ObjectLiteralExpression ps) = outer_markers_list ps"
| "outer_markers (PropertyAssignment k v) = outer_markers v"
| "outer_markers (PropertyAccessExpression e x) = outer_markers e"
| "outer_markers (VariableStatement x e) = outer_markers e"
| "outer_markers (OtherNode k cs) = outer_markers_list cs"
| "outer_markers (Identifier x) = []"
| "outer_markers (StringLiteral t) = []"
| "outer_markers (ImportDeclaration ns m) = []"
| "outer_markers (FunctionDeclaration f ps t) = []"
| "outer_markers_list [] = []"
| "outer_markers_list (n # ns) = outer_markers n @ outer_markers_list ns"

text \<open>
  \<open>dispatch_all h fs fn s ms\<close> hands each call of \<open>ms\<close> to its rewriter, once and in
  order, threading the state, and returns the final state or the first error.
\<close>

fun dispatch_all :: "host \<Rightarrow> filesystem \<Rightarrow> string \<Rightarrow> tstate \<Rightarrow> node list \<Rightarrow> error + tstate" where
  "dispatch_all h fs fn s [] = Inr s"
| "dispatch_all h fs fn s (m # ms) =
     (case rewriteMarker h fs fn s m of
        Inl err \<Rightarrow> Inl err
      | Inr (m', s1) \<Rightarrow> dispatch_all h fs fn s1 ms)"

definition final_state :: "error + 'a \<times> tstate \<Rightarrow> error + tstate" where
  "final_state r = (case r of Inl err \<Rightarrow> Inl err | Inr (x, s) \<Rightarrow> Inr s)"

definition no_globals :: globals where
  "no_globals = \<lparr>pending_functions = [], pending_imports = []\<rparr>"

section \<open>A concrete host and concrete units\<close>

text \<open>
  A small host on which the definitions evaluate: one template with the two variables
  \<open>x\<close> and \<open>y\<close>, the type \<open>number\<close>, three symbols in scope, and paths of the form
  \<^verbatim>\<open>/dir/file\<close>.
\<close>

definition demo_dirname :: "string \<Rightarrow> string" where
  "demo_dirname p =
     (let r = dropWhile (\<lambda>c. c \<noteq> CHR ''/'') (rev p)
      in if r = [] then ''.'' else if tl r = [] then ''/'' else rev (tl r))"

definition demo_basename :: "string \<Rightarrow> string" where
  "demo_basename p = rev (takeWhile (\<lambda>c. c \<noteq> CHR ''/'') (rev p))"

definition demo_host :: host where
  "demo_host =
     \<lparr>extractVariables = (\<lambda>t. if t = ''Add {{x}} and {{y}}'' then [''x'', ''y''] else []),
      convertTemplate = (\<lambda>t. if t = ''Add {{x}} and {{y}}'' then ''Add x and y'' else t),
      generateUniqueFunctionName = (\<lambda>s. ''f1''),
      convertToDynamicType =
        (\<lambda>t. if t = TypeNode ''number'' then Some (Identifier ''__number__'') else None),
      makeTypeDirection = (\<lambda>t. if t = TypeNode ''number'' then Some ''number'' else None),
      makeExpressionFromString = Identifier,
      identifierValue = (\<lambda>x. if x = ''exs'' then Some [ExampleValue ''e1''] else None),
      getSymbolsInScope =
        (\<lambda>n. [\<lparr>sym_name = ''x'', valueDeclaration = 10\<rparr>,
              \<lparr>sym_name = ''y'', valueDeclaration = 11\<rparr>,
              \<lparr>sym_name = ''exs'', valueDeclaration = 12\<rparr>]),
      symbolTypeString = (\<lambda>symbol. if sym_name symbol = ''exs'' then ''Example[]'' else ''number''),
      typeNodeString = (\<lambda>t. case t of TypeNode x \<Rightarrow> x),
      printNode = (\<lambda>n. ''sig''),
      jsonStringify = name,
      path_dirname = demo_dirname,
      path_basename = demo_basename,
      path_join = join ''/''\<rparr>"

definition demo_fs :: filesystem where
  "demo_fs = [''/p'' \<mapsto> Directory, ''/p/a.ts'' \<mapsto> File ''source'']"

definition demo_fs_generated :: filesystem where
  "demo_fs_generated =
     [''/p'' \<mapsto> Directory, ''/p/a.ts'' \<mapsto> File ''source'',
      ''/p/askit'' \<mapsto> Directory, ''/p/askit/f1.ts'' \<mapsto> File ''generated'']"

text \<open>The call \<^verbatim>\<open>ask<number>('Add {{x}} and {{y}}')\<close>.\<close>

definition demo_ask :: node where
  "demo_ask =
     CallExpression (Identifier ''ask'') (Some [TypeNode ''number''])
       [StringLiteral ''Add {{x}} and {{y}}'']"

text \<open>The record that the host above gives for \<open>demo_ask\<close>.\<close>

definition demo_record :: "ExampleType list \<Rightarrow> Info" where
  "demo_record exs =
     \<lparr>signature = ''sig'', desc = ''Add x and y'',
      params = [(''number'', ''x''), (''number'', ''y'')], name = ''f1'', examples = exs\<rparr>"


text \<open>
  A unit with the single statement \<^verbatim>\<open>ask<number>('Add {{x}} and {{y}}');\<close>, under
  a given file name.
\<close>

definition demo_unit :: "string \<Rightarrow> SourceFile" where
  "demo_unit file_name =
     \<lparr>fileName = file_name, statements = [OtherNode ''ExpressionStatement'' [demo_ask]]\<rparr>"

section \<open>Auxiliary facts\<close>

lemma demo_paths:
  "demo_dirname ''/p/a.ts'' = ''/p''" "demo_basename ''/p/a.ts'' = ''a.ts''"
  "demo_dirname ''/p/gen.ts'' = ''/p''" "demo_basename ''/p/gen.ts'' = ''gen.ts''"
  "demo_dirname ''/p/askit'' = ''/p''" "demo_dirname ''/p/askit/gen.ts.jsonl'' = ''/p/askit''"
  by (simp_all add: demo_dirname_def demo_basename_def)

lemma varSymbols_error: "varSymbols symbols vs = Inl e \<Longrightarrow> \<exists>v. e = UnknownVariable v"
  by (induction vs arbitrary: e) (auto split: option.splits sum.splits)

lemma varSymbols_names: "varSymbols symbols vs = Inr syms \<Longrightarrow> map sym_name syms = vs"
  by (induction vs arbitrary: syms) (auto split: option.splits sum.splits simp: find_Some_iff)

lemma rewriteAskCall_template:
  "rewriteAskCall h fs fn s (CallExpression e (Some [rt]) (StringLiteral text # rest)) =
     (case convertToDynamicType h rt of
        None \<Rightarrow> Inl UnrepresentableType
      | Some te \<Rightarrow>
          (case varSymbols (getSymbolsInScope h (CallExpression e (Some [rt]) (StringLiteral text # rest)))
                  (extractVariables h text) of
             Inl err \<Rightarrow> Inl err
           | Inr syms \<Rightarrow>
               (let r = askRecord h rt text rest syms in
                if existsSync fs (path_join h [path_dirname h fn, ''askit'', name r @ ''.ts''])
                then Inr (makeCall (name r) (name r) (map (\<lambda>symbol. Identifier (sym_name symbol)) syms),
                          (fst s @ [r],
                           (snd s)\<lparr>pending_imports :=
                                      pending_imports (snd s) @ [ImportDeclaration [name r] (''./askit/'' @ name r)]\<rparr>))
                else Inr (CallExpression e (Some [rt])
                            [te, StringLiteral text,
                             (case rest of [] \<Rightarrow> ArrayLiteralExpression [] | a # as \<Rightarrow> a),
                             makeVariableMapObject (extractVariables h text)],
                          (fst s @ [r], snd s)))))"
  by (simp add: Let_def askRecord_def makeModuleName_def split: option.splits sum.splits list.splits node.splits)

lemma rewriteAskCall_guard1:
  "\<not> isStringLiteralLike a \<Longrightarrow>
   rewriteAskCall h fs fn s (CallExpression e targs (a # rest)) = Inr (CallExpression e targs (a # rest), s)"
  by simp

lemma rewriteDefineCall_guard1:
  "\<not> isStringLiteralLike a \<Longrightarrow>
   rewriteDefineCall h s (CallExpression e targs (a # rest)) = Inr (CallExpression e targs (a # rest), s)"
  by simp

lemma rewriteAskCall_guard2:
  "args = [] \<or> isStringLiteralLike (hd args) \<Longrightarrow> map_option length targs \<noteq> Some 1 \<Longrightarrow>
   rewriteAskCall h fs fn s (CallExpression e targs args) = Inl MissingTypeArgument"
  by (cases args) (auto simp: throwError_def split: option.splits list.splits)

lemma rewriteDefineCall_guard2:
  "args = [] \<or> isStringLiteralLike (hd args) \<Longrightarrow> map_option length targs \<noteq> Some 1 \<Longrightarrow>
   rewriteDefineCall h s (CallExpression e targs args) = Inl MissingTypeArgument"
  by (cases args) (auto simp: throwError_def split: option.splits list.splits)

lemma rewriteAskCall_no_arguments:
  "rewriteAskCall h fs fn s (CallExpression e (Some [rt]) []) = Inl JsTypeError"
  by simp

lemma rewriteAskCall_one_type_argument:
  "rewriteAskCall h fs fn s (CallExpression e (Some [rt]) args) \<noteq> Inl MissingTypeArgument"
proof (cases args)
  case Nil
  then show ?thesis by simp
next
  case (Cons a rest)
  show ?thesis
  proof (cases a)
    case (StringLiteral t)
    show ?thesis
      unfolding Cons StringLiteral rewriteAskCall_template
      by (auto simp: Let_def split: option.splits sum.splits dest: varSymbols_error)
  qed (simp_all add: Cons)
qed

lemma rewriteDefineCall_one_type_argument:
  "rewriteDefineCall h s (CallExpression e (Some [rt]) args) \<noteq> Inl MissingTypeArgument"
  by (auto simp: createTypeExpression_def split: option.splits sum.splits)

lemma rewriteDefineCall_rewrite:
  "args = [] \<or> isStringLiteralLike (hd args) \<Longrightarrow>
   rewriteDefineCall h s (CallExpression e (Some [rt]) args) =
     (case createTypeExpression h rt of
        Inl err \<Rightarrow> Inl err
      | Inr te \<Rightarrow> Inr (CallExpression e (Some [rt]) (te # args), s))"
  by (cases args) (auto split: sum.splits)

lemma one_type_argument: "map_option length targs = Some (Suc 0) \<longleftrightarrow> (\<exists>rt. targs = Some [rt])"
  by (cases targs) (auto simp: length_Suc_conv)

lemma visit_marker:
  "isMarker (CallExpression e targs args) \<Longrightarrow>
   visit h fs fn s (CallExpression e targs args) = rewriteMarker h fs fn s (CallExpression e targs args)"
  by (auto simp add: isMarker_def rewriteMarker_def
        simp del: rewriteAskCall.simps rewriteDefineCall.simps)


declare rewriteAskCall.simps [simp del] rewriteDefineCall.simps [simp del]

lemma isAskCall_iff:
  "isAskCall (CallExpression e targs args) \<longleftrightarrow> e = Identifier ''llm'' \<or> e = Identifier ''ask''"
  by (cases e) (auto simp: isAskCall_def)

lemma isDefineCall_iff:
  "isDefineCall (CallExpression e targs args) \<longleftrightarrow> e = Identifier ''define''"
  by (cases e) (auto simp: isDefineCall_def)

lemma visit_ask:
  "isAskCall (CallExpression e targs args) \<Longrightarrow>
   visit h fs fn s (CallExpression e targs args) = rewriteAskCall h fs fn s (CallExpression e targs args)"
  by (simp del: rewriteAskCall.simps)

lemma visit_define:
  "isDefineCall (CallExpression e targs args) \<Longrightarrow>
   visit h fs fn s (CallExpression e targs args) = rewriteDefineCall h s (CallExpression e targs args)"
  by (auto simp: isAskCall_iff isDefineCall_iff simp del: rewriteAskCall.simps rewriteDefineCall.simps)

section \<open>The rewrite of an ask call\<close>

text \<open>
  C2. An \<open>ask\<close> or \<open>llm\<close> call with one type argument and a string-literal template,
  whose type argument converts to the dynamic type \<open>te\<close>, whose template variables all
  resolve (to \<open>syms\<close>), and whose generated module \<^verbatim>\<open>askit/<name>.ts\<close> does not exist, is
  replaced by a call of the same callee, with the same type argument, on exactly four
  arguments: \<open>te\<close>, the template literal, the second argument of the call (the empty
  array literal if there is none), and the object literal that maps each template variable
  to the identifier of that name. One record is appended to the metadata; its parameters
  are the (type, name) pairs of the resolved symbols, in the order of the template's
  variables. The pending imports do not change.
\<close>

theorem inline_rewrite:
  assumes "isAskCall (CallExpression e (Some [rt]) (StringLiteral t # rest))"
    and "convertToDynamicType h rt = Some te"
    and "varSymbols (getSymbolsInScope h (CallExpression e (Some [rt]) (StringLiteral t # rest)))
           (extractVariables h t) = Inr syms"
    and "\<not> existsSync fs (fst (makeModuleName h fn (name (askRecord h rt t rest syms))))"
  shows "visit h fs fn s (CallExpression e (Some [rt]) (StringLiteral t # rest)) =
           Inr (CallExpression e (Some [rt])
                  [te, StringLiteral t,
                   (case rest of [] \<Rightarrow> ArrayLiteralExpression [] | a # as \<Rightarrow> a),
                   ObjectLiteralExpression
                     (map (\<lambda>v. PropertyAssignment v (Identifier v)) (extractVariables h t))],
                (fst s @ [askRecord h rt t rest syms], snd s))
         \<and> params (askRecord h rt t rest syms) =
             map (\<lambda>symbol. (symbolTypeString h symbol, sym_name symbol)) syms
         \<and> map snd (params (askRecord h rt t rest syms)) = extractVariables h t"
proof -
  have "map snd (params (askRecord h rt t rest syms)) = map sym_name syms"
    by (simp add: askRecord_def comp_def)
  with assms(3) have "map snd (params (askRecord h rt t rest syms)) = extractVariables h t"
    by (simp add: varSymbols_names)
  moreover have "params (askRecord h rt t rest syms) =
             map (\<lambda>symbol. (symbolTypeString h symbol, sym_name symbol)) syms"
    by (simp add: askRecord_def)
  moreover have "visit h fs fn s (CallExpression e (Some [rt]) (StringLiteral t # rest)) =
           Inr (CallExpression e (Some [rt])
                  [te, StringLiteral t,
                   (case rest of [] \<Rightarrow> ArrayLiteralExpression [] | a # as \<Rightarrow> a),
                   ObjectLiteralExpression
                     (map (\<lambda>v. PropertyAssignment v (Identifier v)) (extractVariables h t))],
                (fst s @ [askRecord h rt t rest syms], snd s))"
    using assms
    by (simp add: visit_ask rewriteAskCall_template makeModuleName_def Let_def
          makeVariableMapObject_def del: rewriteAskCall.simps)
  ultimately show ?thesis by simp
qed

theorem inline_rewrite_witness:
  "isAskCall demo_ask
   \<and> convertToDynamicType demo_host (TypeNode ''number'') = Some (Identifier ''__number__'')
   \<and> varSymbols (getSymbolsInScope demo_host demo_ask) (extractVariables demo_host ''Add {{x}} and {{y}}'')
       = Inr [\<lparr>sym_name = ''x'', valueDeclaration = 10\<rparr>, \<lparr>sym_name = ''y'', valueDeclaration = 11\<rparr>]
   \<and> \<not> existsSync demo_fs ''/p/askit/f1.ts''
   \<and> visit demo_host demo_fs ''/p/a.ts'' ([], no_globals) demo_ask =
       Inr (CallExpression (Identifier ''ask'') (Some [TypeNode ''number''])
              [Identifier ''__number__'', StringLiteral ''Add {{x}} and {{y}}'',
               ArrayLiteralExpression [],
               ObjectLiteralExpression
                 [PropertyAssignment ''x'' (Identifier ''x''),
                  PropertyAssignment ''y'' (Identifier ''y'')]],
            ([demo_record []], no_globals))"
proof -
  let ?syms = "[\<lparr>sym_name = ''x'', valueDeclaration = 10\<rparr>, \<lparr>sym_name = ''y'', valueDeclaration = 11\<rparr>]"
  have a: "isAskCall (CallExpression (Identifier ''ask'') (Some [TypeNode ''number''])
             (StringLiteral ''Add {{x}} and {{y}}'' # []))"
    by (simp add: isAskCall_def)
  have b: "convertToDynamicType demo_host (TypeNode ''number'') = Some (Identifier ''__number__'')"
    by (simp add: demo_host_def)
  have c: "varSymbols (getSymbolsInScope demo_host (CallExpression (Identifier ''ask'')
             (Some [TypeNode ''number'']) (StringLiteral ''Add {{x}} and {{y}}'' # [])))
             (extractVariables demo_host ''Add {{x}} and {{y}}'') = Inr ?syms"
    by (simp add: demo_host_def)
  have r: "askRecord demo_host (TypeNode ''number'') ''Add {{x}} and {{y}}'' [] ?syms = demo_record []"
    by (simp add: askRecord_def demo_host_def demo_record_def makeSignature_def)
  have p: "fst (makeModuleName demo_host ''/p/a.ts'' ''f1'') = ''/p/askit/f1.ts''"
    by (simp add: makeModuleName_def demo_host_def demo_paths)
  have d: "\<not> existsSync demo_fs (fst (makeModuleName demo_host ''/p/a.ts''
             (name (askRecord demo_host (TypeNode ''number'') ''Add {{x}} and {{y}}'' [] ?syms))))"
    unfolding r by (simp add: demo_record_def p existsSync_def demo_fs_def)
  have e: "\<not> existsSync demo_fs ''/p/askit/f1.ts''"
    by (simp add: existsSync_def demo_fs_def)
  have x: "extractVariables demo_host ''Add {{x}} and {{y}}'' = [''x'', ''y'']"
    by (simp add: demo_host_def)
  show ?thesis
    using inline_rewrite [OF a b c d, of "([], no_globals)"] a b c e
    by (simp add: demo_ask_def r x)
qed


text \<open>
  C3. An \<open>ask\<close> or \<open>llm\<close> call with one type argument and a string-literal template,
  whose type argument converts, whose template variables all resolve and whose generated
  module \<^verbatim>\<open>askit/<name>.ts\<close> exists, makes three changes: the import of \<open>name\<close> from
  \<^verbatim>\<open>./askit/<name>\<close> is appended to the pending imports; the call is replaced by the
  call of \<^verbatim>\<open><name>_1.<name>\<close>, without type arguments, on the identifiers of the
  template variables in the order of the template; and the same record as in the inline
  case is appended to the metadata.
\<close>

theorem redirect_rewrite:
  assumes "isAskCall (CallExpression e (Some [rt]) (StringLiteral t # rest))"
    and "convertToDynamicType h rt = Some te"
    and "varSymbols (getSymbolsInScope h (CallExpression e (Some [rt]) (StringLiteral t # rest)))
           (extractVariables h t) = Inr syms"
    and "existsSync fs (fst (makeModuleName h fn (name (askRecord h rt t rest syms))))"
    and "r = askRecord h rt t rest syms"
  shows "visit h fs fn s (CallExpression e (Some [rt]) (StringLiteral t # rest)) =
           Inr (CallExpression (PropertyAccessExpression (Identifier (name r @ ''_1'')) (name r)) None
                  (map Identifier (extractVariables h t)),
                (fst s @ [r],
                 (snd s)\<lparr>pending_imports :=
                            pending_imports (snd s) @ [ImportDeclaration [name r] (''./askit/'' @ name r)]\<rparr>))"
proof -
  have "map (\<lambda>symbol. Identifier (sym_name symbol)) syms = map Identifier (map sym_name syms)"
    by (simp add: comp_def)
  with assms(3) have args: "map (\<lambda>symbol. Identifier (sym_name symbol)) syms =
      map Identifier (extractVariables h t)"
    by (simp add: varSymbols_names)
  show ?thesis
    using assms args
    by (simp add: visit_ask rewriteAskCall_template makeModuleName_def Let_def makeCall_def)
qed

theorem redirect_rewrite_witness:
  "isAskCall demo_ask
   \<and> convertToDynamicType demo_host (TypeNode ''number'') = Some (Identifier ''__number__'')
   \<and> varSymbols (getSymbolsInScope demo_host demo_ask) (extractVariables demo_host ''Add {{x}} and {{y}}'')
       = Inr [\<lparr>sym_name = ''x'', valueDeclaration = 10\<rparr>, \<lparr>sym_name = ''y'', valueDeclaration = 11\<rparr>]
   \<and> existsSync demo_fs_generated ''/p/askit/f1.ts''
   \<and> visit demo_host demo_fs_generated ''/p/a.ts'' ([], no_globals) demo_ask =
       Inr (CallExpression (PropertyAccessExpression (Identifier ''f1_1'') ''f1'') None
              [Identifier ''x'', Identifier ''y''],
            ([demo_record []],
             \<lparr>pending_functions = [], pending_imports = [ImportDeclaration [''f1''] ''./askit/f1'']\<rparr>))"
proof -
  let ?syms = "[\<lparr>sym_name = ''x'', valueDeclaration = 10\<rparr>, \<lparr>sym_name = ''y'', valueDeclaration = 11\<rparr>]"
  have a: "isAskCall (CallExpression (Identifier ''ask'') (Some [TypeNode ''number''])
             (StringLiteral ''Add {{x}} and {{y}}'' # []))"
    by (simp add: isAskCall_def)
  have b: "convertToDynamicType demo_host (TypeNode ''number'') = Some (Identifier ''__number__'')"
    by (simp add: demo_host_def)
  have c: "varSymbols (getSymbolsInScope demo_host (CallExpression (Identifier ''ask'')
             (Some [TypeNode ''number'']) (StringLiteral ''Add {{x}} and {{y}}'' # [])))
             (extractVariables demo_host ''Add {{x}} and {{y}}'') = Inr ?syms"
    by (simp add: demo_host_def)
  have r: "demo_record [] = askRecord demo_host (TypeNode ''number'') ''Add {{x}} and {{y}}'' [] ?syms"
    by (simp add: askRecord_def demo_host_def demo_record_def makeSignature_def)
  have p: "fst (makeModuleName demo_host ''/p/a.ts'' ''f1'') = ''/p/askit/f1.ts''"
    by (simp add: makeModuleName_def demo_host_def demo_paths)
  have e: "existsSync demo_fs_generated ''/p/askit/f1.ts''"
    by (simp add: existsSync_def demo_fs_generated_def)
  have d: "existsSync demo_fs_generated (fst (makeModuleName demo_host ''/p/a.ts''
             (name (askRecord demo_host (TypeNode ''number'') ''Add {{x}} and {{y}}'' [] ?syms))))"
    unfolding r [symmetric] using e by (simp add: demo_record_def p)
  have x: "extractVariables demo_host ''Add {{x}} and {{y}}'' = [''x'', ''y'']"
    by (simp add: demo_host_def)
  have n: "name (demo_record []) = ''f1''"
    by (simp add: demo_record_def)
  show ?thesis
    using redirect_rewrite [OF a b c d r, of "([], no_globals)"] a b c e
    by (simp add: demo_ask_def x n no_globals_def)
qed


text \<open>
  C4, as the code has it. The record appended for a rewritten \<open>ask\<close> or \<open>llm\<close> call has
  as its examples the value that \<^verbatim>\<open>getIdentifierValue\<close> gives when the second argument
  is a bare identifier, which is the statically known value of the identifier, or the
  empty list when it has none; in every other case, a literal array as second argument
  and no second argument included, the examples are the empty list.
\<close>

theorem examples_of_record:
  assumes "isAskCall (CallExpression e targs (StringLiteral t # rest))"
    and "visit h fs fn s (CallExpression e targs (StringLiteral t # rest)) = Inr (n', s')"
  shows "\<exists>r. fst s' = fst s @ [r]
           \<and> examples r =
               (case rest of
                  Identifier x # as \<Rightarrow> (case identifierValue h x of Some v \<Rightarrow> v | None \<Rightarrow> [])
                | _ \<Rightarrow> [])"
proof -
  from assms have rw: "rewriteAskCall h fs fn s (CallExpression e targs (StringLiteral t # rest)) = Inr (n', s')"
    by (simp add: visit_ask)
  have "map_option length targs = Some 1"
  proof (rule ccontr)
    assume "map_option length targs \<noteq> Some 1"
    then have "rewriteAskCall h fs fn s (CallExpression e targs (StringLiteral t # rest))
                 = Inl MissingTypeArgument"
      by (intro rewriteAskCall_guard2) simp_all
    with rw show False by simp
  qed
  then obtain rt where targs: "targs = Some [rt]"
    by (cases targs) (auto simp: length_Suc_conv)
  have ex: "examples (askRecord h rt t rest syms) =
          (case rest of
             Identifier x # as \<Rightarrow> (case identifierValue h x of Some v \<Rightarrow> v | None \<Rightarrow> [])
           | _ \<Rightarrow> [])" for syms
    by (simp add: askRecord_def split: list.splits node.splits)
  from rw obtain syms where "fst s' = fst s @ [askRecord h rt t rest syms]"
    unfolding targs rewriteAskCall_template
    by (auto simp: Let_def split: option.splits sum.splits if_splits)
  with ex show ?thesis by blast
qed

theorem examples_of_record_witness:
  "isAskCall (CallExpression (Identifier ''ask'') (Some [TypeNode ''number''])
      [StringLiteral ''Add {{x}} and {{y}}'', Identifier ''exs''])
   \<and> visit demo_host demo_fs ''/p/a.ts'' ([], no_globals)
       (CallExpression (Identifier ''ask'') (Some [TypeNode ''number''])
          [StringLiteral ''Add {{x}} and {{y}}'', Identifier ''exs'']) =
       Inr (CallExpression (Identifier ''ask'') (Some [TypeNode ''number''])
              [Identifier ''__number__'', StringLiteral ''Add {{x}} and {{y}}'', Identifier ''exs'',
               ObjectLiteralExpression
                 [PropertyAssignment ''x'' (Identifier ''x''),
                  PropertyAssignment ''y'' (Identifier ''y'')]],
            ([demo_record [ExampleValue ''e1'']], no_globals))
   \<and> (\<exists>r. [demo_record [ExampleValue ''e1'']] = [] @ [r] \<and> examples r = [ExampleValue ''e1''])"
proof -
  have a: "isAskCall (CallExpression (Identifier ''ask'') (Some [TypeNode ''number''])
      (StringLiteral ''Add {{x}} and {{y}}'' # [Identifier ''exs'']))"
    by (simp add: isAskCall_def)
  have p: "demo_dirname ''/p/a.ts'' = ''/p''"
    by (simp add: demo_paths)
  have b: "visit demo_host demo_fs ''/p/a.ts'' ([], no_globals)
       (CallExpression (Identifier ''ask'') (Some [TypeNode ''number''])
          (StringLiteral ''Add {{x}} and {{y}}'' # [Identifier ''exs''])) =
       Inr (CallExpression (Identifier ''ask'') (Some [TypeNode ''number''])
              [Identifier ''__number__'', StringLiteral ''Add {{x}} and {{y}}'', Identifier ''exs'',
               ObjectLiteralExpression
                 [PropertyAssignment ''x'' (Identifier ''x''),
                  PropertyAssignment ''y'' (Identifier ''y'')]],
            ([demo_record [ExampleValue ''e1'']], no_globals))"
    by (simp add: isAskCall_def rewriteAskCall_template demo_host_def askRecord_def
          demo_record_def makeSignature_def makeVariableMapObject_def existsSync_def demo_fs_def p)
  have v: "identifierValue demo_host ''exs'' = Some [ExampleValue ''e1'']"
    by (simp add: demo_host_def)
  show ?thesis
    using examples_of_record [OF a b] a b
    by (simp add: v)
qed

text \<open>
  C4 as stated fails on a literal array: for
  \<^verbatim>\<open>ask<number>('Add {{x}} and {{y}}', [{output: '3'}])\<close> the literal array is passed on
  as the third argument of the rewritten call, and the examples of the record are empty.
\<close>

theorem examples_literal_array_counterexample:
  "visit demo_host demo_fs ''/p/a.ts'' ([], no_globals)
     (CallExpression (Identifier ''ask'') (Some [TypeNode ''number''])
        [StringLiteral ''Add {{x}} and {{y}}'',
         ArrayLiteralExpression [ObjectLiteralExpression [PropertyAssignment ''output'' (StringLiteral ''3'')]]]) =
   Inr (CallExpression (Identifier ''ask'') (Some [TypeNode ''number''])
          [Identifier ''__number__'', StringLiteral ''Add {{x}} and {{y}}'',
           ArrayLiteralExpression [ObjectLiteralExpression [PropertyAssignment ''output'' (StringLiteral ''3'')]],
           ObjectLiteralExpression
             [PropertyAssignment ''x'' (Identifier ''x''),
              PropertyAssignment ''y'' (Identifier ''y'')]],
        ([\<lparr>signature = ''sig'', desc = ''Add x and y'',
           params = [(''number'', ''x''), (''number'', ''y'')], name = ''f1'', examples = []\<rparr>],
         no_globals))"
proof -
  have p: "demo_dirname ''/p/a.ts'' = ''/p''"
    by (simp add: demo_paths)
  show ?thesis
    by (simp add: isAskCall_def rewriteAskCall_template demo_host_def askRecord_def
          makeSignature_def makeVariableMapObject_def existsSync_def demo_fs_def p)
qed


lemma visit_other_call:
  "\<not> isMarker (CallExpression e targs args) \<Longrightarrow>
   visit h fs fn s (CallExpression e targs args) =
     (case visit h fs fn s e of
        Inl err \<Rightarrow> Inl err
      | Inr (e', s1) \<Rightarrow>
          (case visitNodes h fs fn s1 args of
             Inl err \<Rightarrow> Inl err
           | Inr (args', s2) \<Rightarrow> Inr (CallExpression e' targs args', s2)))"
  by (simp add: isMarker_def)

declare visit.simps(1) [simp del]

section \<open>The guards of the two rewriters\<close>

text \<open>
  C7. For a marker call (\<open>ask\<close>, \<open>llm\<close> or \<open>define\<close>) that has no argument or whose
  first argument is a string literal, the visit raises the error
  \<open>MissingTypeArgument\<close> if and only if the call does not have exactly one type argument:
  it is raised both without type arguments and with two or more, and with exactly one
  type argument the visit either succeeds or raises another error.
\<close>

theorem type_argument_error:
  assumes "isMarker (CallExpression e targs args)"
    and "args = [] \<or> isStringLiteralLike (hd args)"
  shows "visit h fs fn s (CallExpression e targs args) = Inl MissingTypeArgument
           \<longleftrightarrow> map_option length targs \<noteq> Some 1"
proof (cases "map_option length targs = Some 1")
  case True
  then obtain rt where targs: "targs = Some [rt]"
    by (cases targs) (auto simp: length_Suc_conv)
  have "rewriteMarker h fs fn s (CallExpression e (Some [rt]) args) \<noteq> Inl MissingTypeArgument"
    by (simp add: rewriteMarker_def rewriteAskCall_one_type_argument
          rewriteDefineCall_one_type_argument)
  with assms(1) True show ?thesis
    by (simp add: visit_marker targs)
next
  case False
  with assms(2) have "rewriteMarker h fs fn s (CallExpression e targs args) = Inl MissingTypeArgument"
    by (simp add: rewriteMarker_def rewriteAskCall_guard2 rewriteDefineCall_guard2)
  with assms(1) False show ?thesis
    by (simp add: visit_marker)
qed

theorem type_argument_error_witness:
  "isMarker (CallExpression (Identifier ''ask'') None [StringLiteral ''static text''])
   \<and> ([StringLiteral ''static text''] = [] \<or> isStringLiteralLike (hd [StringLiteral ''static text'']))
   \<and> visit demo_host demo_fs ''/p/a.ts'' ([], no_globals)
        (CallExpression (Identifier ''ask'') None [StringLiteral ''static text'']) = Inl MissingTypeArgument
   \<and> map_option length (None :: type_node list option) \<noteq> Some 1"
proof -
  have a: "isMarker (CallExpression (Identifier ''ask'') None [StringLiteral ''static text''])"
    by (simp add: isMarker_def isAskCall_def)
  have b: "[StringLiteral ''static text''] = [] \<or> isStringLiteralLike (hd [StringLiteral ''static text''])"
    by simp
  have c: "map_option length (None :: type_node list option) \<noteq> Some 1"
    by simp
  from type_argument_error [OF a b, of demo_host demo_fs "''/p/a.ts''" "([], no_globals)"] a b c
  show ?thesis by blast
qed

text \<open>
  C8. A marker call (\<open>ask\<close>, \<open>llm\<close> or \<open>define\<close>) whose first argument is present and
  is not a string literal is returned as it is, whatever its type arguments: no error is
  raised and the state (the metadata and the pending imports) does not change.
\<close>

theorem non_literal_passthrough:
  assumes "isMarker (CallExpression e targs (a # rest))"
    and "\<not> isStringLiteralLike a"
  shows "visit h fs fn s (CallExpression e targs (a # rest)) = Inr (CallExpression e targs (a # rest), s)"
  using assms
  by (simp add: visit_marker rewriteMarker_def rewriteAskCall_guard1 rewriteDefineCall_guard1)

theorem non_literal_passthrough_witness:
  "isMarker (CallExpression (Identifier ''define'') None [Identifier ''prompt'', demo_ask])
   \<and> \<not> isStringLiteralLike (Identifier ''prompt'')
   \<and> visit demo_host demo_fs ''/p/a.ts'' ([], no_globals)
        (CallExpression (Identifier ''define'') None [Identifier ''prompt'', demo_ask]) =
      Inr (CallExpression (Identifier ''define'') None [Identifier ''prompt'', demo_ask], ([], no_globals))"
proof -
  have a: "isMarker (CallExpression (Identifier ''define'') None (Identifier ''prompt'' # [demo_ask]))"
    by (simp add: isMarker_def isDefineCall_def)
  have b: "\<not> isStringLiteralLike (Identifier ''prompt'')"
    by simp
  from non_literal_passthrough [OF a b, of demo_host demo_fs "''/p/a.ts''" "([], no_globals)"] a b
  show ?thesis by blast
qed

text \<open>
  C9. A \<open>define\<close> call with exactly one type argument that has no argument or whose first
  argument is a string literal, and whose type argument has a type expression \<open>te\<close>, is
  replaced by the call of the same callee, with the same type argument, on \<open>te\<close> followed
  by the arguments of the call in their order. The result is the same for every file
  system, and the state (the metadata and the pending imports) does not change.
\<close>

theorem define_rewrite:
  assumes "isDefineCall (CallExpression e (Some [rt]) args)"
    and "args = [] \<or> isStringLiteralLike (hd args)"
    and "createTypeExpression h rt = Inr te"
  shows "visit h fs fn s (CallExpression e (Some [rt]) args) =
           Inr (CallExpression e (Some [rt]) (te # args), s)"
  using assms
  by (simp add: visit_define rewriteDefineCall_rewrite)

theorem define_rewrite_witness:
  "isDefineCall (CallExpression (Identifier ''define'') (Some [TypeNode ''number''])
      [StringLiteral ''Add {{x}} and {{y}}'', demo_ask])
   \<and> isStringLiteralLike (hd [StringLiteral ''Add {{x}} and {{y}}'', demo_ask])
   \<and> createTypeExpression demo_host (TypeNode ''number'') = Inr (Identifier ''number'')
   \<and> visit demo_host demo_fs_generated ''/p/a.ts'' ([], no_globals)
        (CallExpression (Identifier ''define'') (Some [TypeNode ''number''])
           [StringLiteral ''Add {{x}} and {{y}}'', demo_ask]) =
      Inr (CallExpression (Identifier ''define'') (Some [TypeNode ''number''])
             [Identifier ''number'', StringLiteral ''Add {{x}} and {{y}}'', demo_ask],
           ([], no_globals))"
proof -
  have a: "isDefineCall (CallExpression (Identifier ''define'') (Some [TypeNode ''number''])
      [StringLiteral ''Add {{x}} and {{y}}'', demo_ask])"
    by (simp add: isDefineCall_def)
  have b: "[StringLiteral ''Add {{x}} and {{y}}'', demo_ask] = []
             \<or> isStringLiteralLike (hd [StringLiteral ''Add {{x}} and {{y}}'', demo_ask])"
    by simp
  have c: "createTypeExpression demo_host (TypeNode ''number'') = Inr (Identifier ''number'')"
    by (simp add: createTypeExpression_def demo_host_def)
  from define_rewrite [OF a b c, of demo_fs_generated "''/p/a.ts''" "([], no_globals)"] a b c
  show ?thesis by simp
qed

text \<open>
  C10. An \<open>ask\<close> or \<open>llm\<close> call with exactly one type argument and no argument passes
  both guards of \<^verbatim>\<open>rewriteAskCall\<close>; the read of its first argument finds nothing, and
  the read of the template's text raises the TypeError of JavaScript.
\<close>

theorem ask_without_arguments:
  "rewriteAskCall h fs fn s (CallExpression (Identifier ''ask'') (Some [rt]) []) = Inl JsTypeError
   \<and> visit h fs fn s (CallExpression (Identifier ''ask'') (Some [rt]) []) = Inl JsTypeError"
  by (simp add: visit_ask isAskCall_def rewriteAskCall_no_arguments)


section \<open>The traversal\<close>

lemma all_markers_are_markers:
  "m \<in> set (all_markers n) \<Longrightarrow> isMarker m"
  "m \<in> set (all_markers_list ns) \<Longrightarrow> isMarker m"
  by (induction n and ns rule: all_markers_all_markers_list.induct) (auto split: if_splits)

lemma outer_markers_are_markers:
  "set (outer_markers n) \<subseteq> set (all_markers n)"
  "set (outer_markers_list ns) \<subseteq> set (all_markers_list ns)"
  by (induction n and ns rule: outer_markers_outer_markers_list.induct) auto

lemma outer_markers_of_marker:
  "isMarker n \<Longrightarrow> outer_markers n = [n]"
  by (cases n) (auto simp: isMarker_def isAskCall_def isDefineCall_def)

lemma dispatch_all_append:
  "dispatch_all h fs fn s (xs @ ys) =
     (case dispatch_all h fs fn s xs of
        Inl err \<Rightarrow> Inl err
      | Inr s1 \<Rightarrow> dispatch_all h fs fn s1 ys)"
  by (induction xs arbitrary: s) (auto split: sum.splits)

lemma visit_dispatch:
  "final_state (visit h fs fn s n) = dispatch_all h fs fn s (outer_markers n)"
  "final_state (visitNodes h fs fn s ns) = dispatch_all h fs fn s (outer_markers_list ns)"
proof (induction h fs fn s n and h fs fn s ns rule: visit_visitNodes.induct)
  case (1 h fs fn s e targs args)
  show ?case
  proof (cases "isMarker (CallExpression e targs args)")
    case True
    then show ?thesis
      by (simp add: visit_marker final_state_def split: sum.splits)
  next
    case False
    then have no: "\<not> isAskCall (CallExpression e targs args)" "\<not> isDefineCall (CallExpression e targs args)"
      by (simp_all add: isMarker_def)
    show ?thesis
    proof (cases "visit h fs fn s e")
      case (Inl err)
      with "1.IH"(1) [OF no] have "dispatch_all h fs fn s (outer_markers e) = Inl err"
        by (simp add: final_state_def)
      with False Inl show ?thesis
        by (simp add: visit_other_call dispatch_all_append final_state_def)
    next
      case (Inr r)
      obtain e' s1 where r: "r = (e', s1)" by (cases r)
      from "1.IH"(1) [OF no] Inr r have d: "dispatch_all h fs fn s (outer_markers e) = Inr s1"
        by (simp add: final_state_def)
      from "1.IH"(2) [OF no Inr [unfolded r] refl]
      have "final_state (visitNodes h fs fn s1 args) = dispatch_all h fs fn s1 (outer_markers_list args)" .
      with False Inr r d show ?thesis
        by (auto simp: visit_other_call dispatch_all_append final_state_def split: sum.splits)
    qed
  qed
next
  case (13 h fs fn s n ns)
  show ?case
  proof (cases "visit h fs fn s n")
    case (Inl err)
    with "13.IH"(1) have "dispatch_all h fs fn s (outer_markers n) = Inl err"
      by (simp add: final_state_def)
    with Inl show ?thesis
      by (simp add: dispatch_all_append final_state_def)
  next
    case (Inr r)
    obtain n' s1 where r: "r = (n', s1)" by (cases r)
    from "13.IH"(1) Inr r have d: "dispatch_all h fs fn s (outer_markers n) = Inr s1"
      by (simp add: final_state_def)
    from "13.IH"(2) [OF Inr [unfolded r] refl]
    have "final_state (visitNodes h fs fn s1 ns) = dispatch_all h fs fn s1 (outer_markers_list ns)" .
    with Inr r d show ?thesis
      by (auto simp: dispatch_all_append final_state_def split: sum.splits)
  qed
qed (auto simp: final_state_def split: sum.splits)

lemma visit_no_markers:
  "outer_markers n = [] \<Longrightarrow> visit h fs fn s n = Inr (n, s)"
  "outer_markers_list ns = [] \<Longrightarrow> visitNodes h fs fn s ns = Inr (ns, s)"
proof (induction h fs fn s n and h fs fn s ns rule: visit_visitNodes.induct)
  case (1 h fs fn s e targs args)
  from "1.prems" have nm: "\<not> isMarker (CallExpression e targs args)"
    by (auto split: if_splits)
  then have no: "\<not> isAskCall (CallExpression e targs args)" "\<not> isDefineCall (CallExpression e targs args)"
    by (simp_all add: isMarker_def)
  from "1.prems" nm have em: "outer_markers e = []" and am: "outer_markers_list args = []"
    by simp_all
  from "1.IH"(1) [OF no em] have ve: "visit h fs fn s e = Inr (e, s)" .
  from "1.IH"(2) [OF no ve refl am] have "visitNodes h fs fn s args = Inr (args, s)" .
  with ve nm show ?case
    by (simp add: visit_other_call)
next
  case (13 h fs fn s n ns)
  from "13.prems" have nm: "outer_markers n = []" and nsm: "outer_markers_list ns = []"
    by simp_all
  from "13.IH"(1) [OF nm] have vn: "visit h fs fn s n = Inr (n, s)" .
  from "13.IH"(2) [OF vn refl nsm] have "visitNodes h fs fn s ns = Inr (ns, s)" .
  with vn show ?case by simp
qed auto

lemma visitNodes_length:
  "visitNodes h fs fn s ns = Inr (ns', s') \<Longrightarrow> length ns' = length ns"
  by (induction ns arbitrary: s ns' s') (auto split: sum.splits)

lemma rewriteAskCall_state:
  "rewriteAskCall h fs fn s m =
     (case rewriteAskCall h fs fn ([], no_globals) m of
        Inl err \<Rightarrow> Inl err
      | Inr (m', d) \<Rightarrow>
          Inr (m', (fst s @ fst d,
                    (snd s)\<lparr>pending_imports := pending_imports (snd s) @ pending_imports (snd d)\<rparr>)))"
proof (cases m)
  case (CallExpression e targs args)
  show ?thesis
  proof (cases "args = [] \<or> isStringLiteralLike (hd args)")
    case False
    then obtain a rest where "args = a # rest" "\<not> isStringLiteralLike a"
      by (cases args) auto
    then show ?thesis
      by (simp add: CallExpression rewriteAskCall_guard1 no_globals_def)
  next
    case lit: True
    show ?thesis
    proof (cases "map_option length targs = Some 1")
      case False
      with lit show ?thesis
        by (simp add: CallExpression rewriteAskCall_guard2)
    next
      case True
      then obtain rt where targs: "targs = Some [rt]"
        by (cases targs) (auto simp: length_Suc_conv)
      show ?thesis
      proof (cases args)
        case Nil
        then show ?thesis
          by (simp add: CallExpression targs rewriteAskCall_no_arguments)
      next
        case (Cons a rest)
        with lit obtain t where "a = StringLiteral t"
          by (cases a) auto
        then show ?thesis
          by (simp add: CallExpression targs Cons rewriteAskCall_template Let_def no_globals_def
                split: option.splits sum.splits)
      qed
    qed
  qed
qed (simp_all add: rewriteAskCall.simps no_globals_def)

lemma rewriteDefineCall_state:
  "rewriteDefineCall h s m =
     (case rewriteDefineCall h ([], no_globals) m of
        Inl err \<Rightarrow> Inl err
      | Inr (m', d) \<Rightarrow>
          Inr (m', (fst s @ fst d,
                    (snd s)\<lparr>pending_imports := pending_imports (snd s) @ pending_imports (snd d)\<rparr>)))"
proof (cases m)
  case (CallExpression e targs args)
  show ?thesis
  proof (cases "args = [] \<or> isStringLiteralLike (hd args)")
    case False
    then obtain a rest where "args = a # rest" "\<not> isStringLiteralLike a"
      by (cases args) auto
    then show ?thesis
      by (simp add: CallExpression rewriteDefineCall_guard1 no_globals_def)
  next
    case lit: True
    show ?thesis
    proof (cases "map_option length targs = Some 1")
      case False
      with lit show ?thesis
        by (simp add: CallExpression rewriteDefineCall_guard2)
    next
      case True
      then obtain rt where targs: "targs = Some [rt]"
        by (cases targs) (auto simp: length_Suc_conv)
      from lit show ?thesis
        by (simp add: CallExpression targs rewriteDefineCall_rewrite no_globals_def split: sum.splits)
    qed
  qed
qed (simp_all add: rewriteDefineCall.simps no_globals_def)

lemma rewriteMarker_state:
  "rewriteMarker h fs fn s m =
     (case rewriteMarker h fs fn ([], no_globals) m of
        Inl err \<Rightarrow> Inl err
      | Inr (m', d) \<Rightarrow>
          Inr (m', (fst s @ fst d,
                    (snd s)\<lparr>pending_imports := pending_imports (snd s) @ pending_imports (snd d)\<rparr>)))"
  unfolding rewriteMarker_def
  using rewriteAskCall_state [of h fs fn s m] rewriteDefineCall_state [of h s m]
  by simp

lemma rewriteMarker_grows:
  assumes "rewriteMarker h fs fn s m = Inr (m', s1)"
  shows "pending_functions (snd s1) = pending_functions (snd s)"
    and "\<exists>new. pending_imports (snd s1) = pending_imports (snd s) @ new"
    and "\<exists>i. fst s1 = fst s @ i"
proof -
  from assms have eq:
    "(case rewriteMarker h fs fn ([], no_globals) m of
        Inl err \<Rightarrow> Inl err
      | Inr (m', d) \<Rightarrow>
          Inr (m', (fst s @ fst d,
                    (snd s)\<lparr>pending_imports := pending_imports (snd s) @ pending_imports (snd d)\<rparr>)))
     = Inr (m', s1)"
    by (subst (asm) rewriteMarker_state)
  from eq show "pending_functions (snd s1) = pending_functions (snd s)"
    by (auto split: sum.splits)
  from eq show "\<exists>new. pending_imports (snd s1) = pending_imports (snd s) @ new"
    by (auto split: sum.splits)
  from eq show "\<exists>i. fst s1 = fst s @ i"
    by (auto split: sum.splits)
qed

lemma dispatch_all_grows:
  "dispatch_all h fs fn s ms = Inr s' \<Longrightarrow>
     pending_functions (snd s') = pending_functions (snd s)
     \<and> (\<exists>new. pending_imports (snd s') = pending_imports (snd s) @ new)
     \<and> (\<exists>i. fst s' = fst s @ i)"
proof (induction ms arbitrary: s)
  case Nil
  then show ?case by simp
next
  case (Cons m ms)
  from Cons.prems obtain m' s1 where
    rw: "rewriteMarker h fs fn s m = Inr (m', s1)" and rest: "dispatch_all h fs fn s1 ms = Inr s'"
    by (auto split: sum.splits)
  from Cons.IH [OF rest] rewriteMarker_grows [OF rw] show ?case
    by auto
qed

lemma visitNodes_grows:
  assumes "visitNodes h fs fn s ns = Inr (ns', s')"
  shows "pending_functions (snd s') = pending_functions (snd s)"
    and "\<exists>new. pending_imports (snd s') = pending_imports (snd s) @ new"
    and "\<exists>i. fst s' = fst s @ i"
proof -
  from assms have "dispatch_all h fs fn s (outer_markers_list ns) = Inr s'"
    using visit_dispatch(2) [of h fs fn s ns] by (simp add: final_state_def)
  from dispatch_all_grows [OF this]
  show "pending_functions (snd s') = pending_functions (snd s)"
    and "\<exists>new. pending_imports (snd s') = pending_imports (snd s) @ new"
    and "\<exists>i. fst s' = fst s @ i"
    by blast+
qed

text \<open>
  C5, as the code has it. The traversal of the statements of a unit hands to its rewriter,
  once each and in the order of the traversal, exactly the marker calls that are not
  inside another marker call: its final state, or its error, is that of dispatching
  \<open>outer_markers_list\<close>. A marker call inside a marker call is not visited. A rewrite
  does not read the accumulators: the node it returns and what it appends to the metadata
  and to the pending imports are the same as from the empty state.
\<close>

theorem traversal_dispatch:
  "final_state (visitNodes h fs fn s stmts) = dispatch_all h fs fn s (outer_markers_list stmts)
   \<and> rewriteMarker h fs fn s m =
       (case rewriteMarker h fs fn ([], no_globals) m of
          Inl err \<Rightarrow> Inl err
        | Inr (m', d) \<Rightarrow>
            Inr (m', (fst s @ fst d,
                      (snd s)\<lparr>pending_imports := pending_imports (snd s) @ pending_imports (snd d)\<rparr>)))"
  using visit_dispatch(2) [of h fs fn s stmts] rewriteMarker_state [of h fs fn s m]
  by (rule conjI)

text \<open>
  C5 as stated fails on a nested marker call: in
  \<^verbatim>\<open>define<number>('Add {{x}} and {{y}}', ask<number>('Add {{x}} and {{y}}'))\<close> the inner
  call is a marker call of the unit, and the visit of the outer call returns it as it was
  and appends no record, where a visit of the inner call appends one.
\<close>

theorem nested_marker_counterexample:
  "isMarker demo_ask
   \<and> all_markers (CallExpression (Identifier ''define'') (Some [TypeNode ''number''])
                    [StringLiteral ''Add {{x}} and {{y}}'', demo_ask]) =
       [CallExpression (Identifier ''define'') (Some [TypeNode ''number''])
          [StringLiteral ''Add {{x}} and {{y}}'', demo_ask], demo_ask]
   \<and> visit demo_host demo_fs ''/p/a.ts'' ([], no_globals)
        (CallExpression (Identifier ''define'') (Some [TypeNode ''number''])
           [StringLiteral ''Add {{x}} and {{y}}'', demo_ask]) =
      Inr (CallExpression (Identifier ''define'') (Some [TypeNode ''number''])
             [Identifier ''number'', StringLiteral ''Add {{x}} and {{y}}'', demo_ask],
           ([], no_globals))
   \<and> final_state (visit demo_host demo_fs ''/p/a.ts'' ([], no_globals) demo_ask) =
      Inr ([demo_record []], no_globals)"
proof -
  have a: "isMarker demo_ask"
    by (simp add: demo_ask_def isMarker_def isAskCall_def)
  have d: "isDefineCall (CallExpression (Identifier ''define'') (Some [TypeNode ''number''])
             [StringLiteral ''Add {{x}} and {{y}}'', demo_ask])"
    by (simp add: isDefineCall_def)
  have b: "all_markers (CallExpression (Identifier ''define'') (Some [TypeNode ''number''])
                    [StringLiteral ''Add {{x}} and {{y}}'', demo_ask]) =
       [CallExpression (Identifier ''define'') (Some [TypeNode ''number''])
          [StringLiteral ''Add {{x}} and {{y}}'', demo_ask], demo_ask]"
    by (simp add: isMarker_def isAskCall_def isDefineCall_def demo_ask_def)
  have c: "visit demo_host demo_fs ''/p/a.ts'' ([], no_globals)
        (CallExpression (Identifier ''define'') (Some [TypeNode ''number''])
           [StringLiteral ''Add {{x}} and {{y}}'', demo_ask]) =
      Inr (CallExpression (Identifier ''define'') (Some [TypeNode ''number''])
             [Identifier ''number'', StringLiteral ''Add {{x}} and {{y}}'', demo_ask],
           ([], no_globals))"
    by (simp add: visit_define [OF d] rewriteDefineCall_rewrite createTypeExpression_def demo_host_def)
  have p: "demo_dirname ''/p/a.ts'' = ''/p''"
    by (simp add: demo_paths)
  have ia: "isAskCall (CallExpression (Identifier ''ask'') (Some [TypeNode ''number''])
       [StringLiteral ''Add {{x}} and {{y}}''])"
    by (simp add: isAskCall_def)
  have e: "final_state (visit demo_host demo_fs ''/p/a.ts'' ([], no_globals) demo_ask) =
      Inr ([demo_record []], no_globals)"
    unfolding demo_ask_def visit_ask [OF ia]
    by (simp add: final_state_def rewriteAskCall_template demo_host_def askRecord_def
          demo_record_def makeSignature_def makeVariableMapObject_def existsSync_def demo_fs_def p)
  from a b c e show ?thesis by blast
qed


section \<open>The source unit after the traversal\<close>

lemma saveInfo_empty: "saveInfo h fs file_name [] = Inr fs"
  by (simp add: saveInfo_def)

lemma saveInfo_exists:
  "saveInfo h fs file_name info = Inr fs1 \<Longrightarrow> existsSync fs p \<Longrightarrow> existsSync fs1 p"
  by (auto simp: saveInfo_def mkdirSync_def writeFileSync_def existsSync_def Let_def
        split: if_splits sum.splits option.splits fs_entry.splits)

lemma update_existing:
  "existsSync fs (fileName node) \<Longrightarrow>
   update h fs g node =
     (node\<lparr>statements :=
             pending_imports g
             @ [createRequire ''__type__'' ''type'' [''ts-askit/types''],
                createRequire ''__array__'' ''array'' [''ts-askit/types''],
                createRequire ''__string__'' ''string'' [''ts-askit/types''],
                createRequire ''__number__'' ''number'' [''ts-askit/types''],
                createRequire ''__boolean__'' ''boolean'' [''ts-askit/types''],
                createRequire ''__object__'' ''object'' [''ts-askit/types''],
                createRequire ''__union__'' ''union'' [''ts-askit/types''],
                createRequire ''__literal__'' ''literal'' [''ts-askit/types'']]
             @ pending_functions g
             @ statements node\<rparr>,
      g\<lparr>pending_imports := [], pending_functions := []\<rparr>)"
  by (simp add: update_def typeConstructorNames_def MODULE_NAME_def)

lemma update_skipped:
  "\<not> existsSync fs (fileName node) \<Longrightarrow> path_basename h (fileName node) \<noteq> ''<repl>.ts'' \<Longrightarrow>
   update h fs g node = (node, g)"
  by (simp add: update_def)

lemma visitNodes_no_markers_state:
  assumes "outer_markers_list ns = []" and "visitNodes h fs fn s ns = Inr (ns', s')"
  shows "ns' = ns" and "s' = s"
  using assms visit_no_markers(2) [of ns h fs fn s] by simp_all


text \<open>
  What the transform returns, from any entry state, when the traversal and the flush
  succeed: for a unit that \<^verbatim>\<open>update\<close> splices, and for a unit that it skips.
\<close>

lemma transformer_spliced:
  assumes "existsSync fs (fileName file)"
    and "visitNodes h fs (fileName file) ([], g) (statements file) = Inr (stmts, (info, g1))"
    and "saveInfo h fs (fileName file) info = Inr fs1"
  shows "transformer h fs g file =
           Inr (file\<lparr>statements :=
                       pending_imports g1
                       @ [createRequire ''__type__'' ''type'' [''ts-askit/types''],
                          createRequire ''__array__'' ''array'' [''ts-askit/types''],
                          createRequire ''__string__'' ''string'' [''ts-askit/types''],
                          createRequire ''__number__'' ''number'' [''ts-askit/types''],
                          createRequire ''__boolean__'' ''boolean'' [''ts-askit/types''],
                          createRequire ''__object__'' ''object'' [''ts-askit/types''],
                          createRequire ''__union__'' ''union'' [''ts-askit/types''],
                          createRequire ''__literal__'' ''literal'' [''ts-askit/types'']]
                       @ pending_functions g1
                       @ stmts\<rparr>,
                g1\<lparr>pending_imports := [], pending_functions := []\<rparr>, fs1)"
proof -
  from saveInfo_exists [OF assms(3) assms(1)] have "existsSync fs1 (fileName file)" .
  then show ?thesis
    by (simp add: transformer_def assms(2) assms(3) update_existing)
qed

lemma transformer_skipped:
  assumes "path_basename h (fileName file) \<noteq> ''<repl>.ts''"
    and "visitNodes h fs (fileName file) ([], g) (statements file) = Inr (stmts, (info, g1))"
    and "saveInfo h fs (fileName file) info = Inr fs1"
    and "\<not> existsSync fs1 (fileName file)"
  shows "transformer h fs g file = Inr (file\<lparr>statements := stmts\<rparr>, g1, fs1)"
  using assms by (simp add: transformer_def update_skipped)

lemma demo_visit_inline:
  assumes "demo_dirname fn = ''/p''"
  shows "visitNodes demo_host demo_fs fn ([], no_globals) [OtherNode ''ExpressionStatement'' [demo_ask]] =
     Inr ([OtherNode ''ExpressionStatement''
             [CallExpression (Identifier ''ask'') (Some [TypeNode ''number''])
                [Identifier ''__number__'', StringLiteral ''Add {{x}} and {{y}}'',
                 ArrayLiteralExpression [],
                 ObjectLiteralExpression
                   [PropertyAssignment ''x'' (Identifier ''x''),
                    PropertyAssignment ''y'' (Identifier ''y'')]]]],
          ([demo_record []], no_globals))"
proof -
  have ia: "isAskCall (CallExpression (Identifier ''ask'') (Some [TypeNode ''number''])
       [StringLiteral ''Add {{x}} and {{y}}''])"
    by (simp add: isAskCall_def)
  have "visit demo_host demo_fs fn ([], no_globals) demo_ask =
     Inr (CallExpression (Identifier ''ask'') (Some [TypeNode ''number''])
                [Identifier ''__number__'', StringLiteral ''Add {{x}} and {{y}}'',
                 ArrayLiteralExpression [],
                 ObjectLiteralExpression
                   [PropertyAssignment ''x'' (Identifier ''x''),
                    PropertyAssignment ''y'' (Identifier ''y'')]],
          ([demo_record []], no_globals))"
    unfolding demo_ask_def visit_ask [OF ia]
    by (simp add: rewriteAskCall_template demo_host_def askRecord_def
          demo_record_def makeSignature_def makeVariableMapObject_def existsSync_def demo_fs_def assms)
  then show ?thesis by simp
qed

lemma demo_visit_redirect:
  assumes "demo_dirname fn = ''/p''"
  shows "visitNodes demo_host demo_fs_generated fn ([], no_globals) [OtherNode ''ExpressionStatement'' [demo_ask]] =
     Inr ([OtherNode ''ExpressionStatement''
             [CallExpression (PropertyAccessExpression (Identifier ''f1_1'') ''f1'') None
                [Identifier ''x'', Identifier ''y'']]],
          ([demo_record []],
           \<lparr>pending_functions = [], pending_imports = [ImportDeclaration [''f1''] ''./askit/f1'']\<rparr>))"
proof -
  have ia: "isAskCall (CallExpression (Identifier ''ask'') (Some [TypeNode ''number''])
       [StringLiteral ''Add {{x}} and {{y}}''])"
    by (simp add: isAskCall_def)
  have "visit demo_host demo_fs_generated fn ([], no_globals) demo_ask =
     Inr (CallExpression (PropertyAccessExpression (Identifier ''f1_1'') ''f1'') None
                [Identifier ''x'', Identifier ''y''],
          ([demo_record []],
           \<lparr>pending_functions = [], pending_imports = [ImportDeclaration [''f1''] ''./askit/f1'']\<rparr>))"
    unfolding demo_ask_def visit_ask [OF ia]
    by (simp add: rewriteAskCall_template demo_host_def askRecord_def makeCall_def no_globals_def
          demo_record_def makeSignature_def existsSync_def demo_fs_generated_def assms)
  then show ?thesis by simp
qed

lemma demo_saveInfo_generated:
  "saveInfo demo_host demo_fs_generated ''/p/gen.ts'' [demo_record []] =
     Inr (demo_fs_generated(''/p/askit/gen.ts.jsonl'' \<mapsto> File ''f1''))"
proof -
  have d: "demo_dirname ''/p/gen.ts'' = ''/p''" "demo_basename ''/p/gen.ts'' = ''gen.ts''"
    "demo_dirname ''/p/askit/gen.ts.jsonl'' = ''/p/askit''"
    by (simp_all add: demo_dirname_def demo_basename_def)
  have e: "demo_fs_generated ''/p/askit'' = Some Directory"
    "demo_fs_generated ''/p/askit/gen.ts.jsonl'' = None"
    by (simp_all add: demo_fs_generated_def)
  show ?thesis
    by (simp add: saveInfo_def demo_host_def d e existsSync_def writeFileSync_def demo_record_def
          Let_def)
qed

lemma demo_saveInfo:
  "saveInfo demo_host demo_fs ''/p/gen.ts'' [demo_record []] =
     Inr (demo_fs(''/p/askit'' \<mapsto> Directory, ''/p/askit/gen.ts.jsonl'' \<mapsto> File ''f1''))"
proof -
  have d: "demo_dirname ''/p/gen.ts'' = ''/p''" "demo_basename ''/p/gen.ts'' = ''gen.ts''"
    "demo_dirname ''/p/askit/gen.ts.jsonl'' = ''/p/askit''" "demo_dirname ''/p/askit'' = ''/p''"
    by (simp_all add: demo_dirname_def demo_basename_def)
  have e: "demo_fs ''/p/askit'' = None" "demo_fs ''/p'' = Some Directory"
    "demo_fs ''/p/askit/gen.ts.jsonl'' = None"
    by (simp_all add: demo_fs_def)
  show ?thesis
    by (simp add: saveInfo_def demo_host_def d e existsSync_def writeFileSync_def mkdirSync_def
          demo_record_def Let_def)
qed

text \<open>
  C1. The unit \<^verbatim>\<open>/p/gen.ts\<close> has no file on disk and is not \<^verbatim>\<open><repl>.ts\<close>; its one
  statement is \<^verbatim>\<open>ask<number>('Add {{x}} and {{y}}');\<close>. The transform does not return
  it unchanged: the traversal and the flush of the metadata run before \<^verbatim>\<open>update\<close>
  tests the file, so the call is rewritten and the sidecar \<^verbatim>\<open>/p/askit/gen.ts.jsonl\<close>,
  which was not there, is written. Only the prologue is left out.
\<close>

theorem skipped_unit_is_rewritten:
  "\<not> existsSync demo_fs (fileName (demo_unit ''/p/gen.ts''))
   \<and> path_basename demo_host (fileName (demo_unit ''/p/gen.ts'')) \<noteq> ''<repl>.ts''
   \<and> transformer demo_host demo_fs no_globals (demo_unit ''/p/gen.ts'') =
       Inr (\<lparr>fileName = ''/p/gen.ts'',
             statements =
               [OtherNode ''ExpressionStatement''
                  [CallExpression (Identifier ''ask'') (Some [TypeNode ''number''])
                     [Identifier ''__number__'', StringLiteral ''Add {{x}} and {{y}}'',
                      ArrayLiteralExpression [],
                      ObjectLiteralExpression
                        [PropertyAssignment ''x'' (Identifier ''x''),
                         PropertyAssignment ''y'' (Identifier ''y'')]]]]\<rparr>,
            no_globals,
            demo_fs(''/p/askit'' \<mapsto> Directory, ''/p/askit/gen.ts.jsonl'' \<mapsto> File ''f1''))
   \<and> statements (demo_unit ''/p/gen.ts'') \<noteq>
       [OtherNode ''ExpressionStatement''
          [CallExpression (Identifier ''ask'') (Some [TypeNode ''number''])
             [Identifier ''__number__'', StringLiteral ''Add {{x}} and {{y}}'',
              ArrayLiteralExpression [],
              ObjectLiteralExpression
                [PropertyAssignment ''x'' (Identifier ''x''),
                 PropertyAssignment ''y'' (Identifier ''y'')]]]]
   \<and> demo_fs ''/p/askit/gen.ts.jsonl'' = None
   \<and> (demo_fs(''/p/askit'' \<mapsto> Directory, ''/p/askit/gen.ts.jsonl'' \<mapsto> File ''f1''))
        ''/p/askit/gen.ts.jsonl'' = Some (File ''f1'')"
proof -
  have a: "\<not> existsSync demo_fs (fileName (demo_unit ''/p/gen.ts''))"
    by (simp add: demo_unit_def existsSync_def demo_fs_def)
  have b: "path_basename demo_host (fileName (demo_unit ''/p/gen.ts'')) \<noteq> ''<repl>.ts''"
    by (simp add: demo_unit_def demo_host_def demo_basename_def)
  have d: "demo_dirname ''/p/gen.ts'' = ''/p''"
    by (simp add: demo_dirname_def)
  let ?stmts = "[OtherNode ''ExpressionStatement''
                  [CallExpression (Identifier ''ask'') (Some [TypeNode ''number''])
                     [Identifier ''__number__'', StringLiteral ''Add {{x}} and {{y}}'',
                      ArrayLiteralExpression [],
                      ObjectLiteralExpression
                        [PropertyAssignment ''x'' (Identifier ''x''),
                         PropertyAssignment ''y'' (Identifier ''y'')]]]]"
  let ?fs = "demo_fs(''/p/askit'' \<mapsto> Directory, ''/p/askit/gen.ts.jsonl'' \<mapsto> File ''f1'')"
  have v: "visitNodes demo_host demo_fs (fileName (demo_unit ''/p/gen.ts'')) ([], no_globals)
             (statements (demo_unit ''/p/gen.ts'')) = Inr (?stmts, ([demo_record []], no_globals))"
    using demo_visit_inline [OF d] by (simp add: demo_unit_def)
  have w: "saveInfo demo_host demo_fs (fileName (demo_unit ''/p/gen.ts'')) [demo_record []] = Inr ?fs"
    using demo_saveInfo by (simp add: demo_unit_def)
  have u: "update demo_host ?fs no_globals ((demo_unit ''/p/gen.ts'')\<lparr>statements := ?stmts\<rparr>) =
             ((demo_unit ''/p/gen.ts'')\<lparr>statements := ?stmts\<rparr>, no_globals)"
    by (simp add: update_def existsSync_def demo_fs_def demo_host_def demo_basename_def demo_unit_def)
  have "transformer demo_host demo_fs no_globals (demo_unit ''/p/gen.ts'') =
          Inr ((demo_unit ''/p/gen.ts'')\<lparr>statements := ?stmts\<rparr>, no_globals, ?fs)"
    by (simp add: transformer_def v w u)
  then have c: "transformer demo_host demo_fs no_globals (demo_unit ''/p/gen.ts'') =
       Inr (\<lparr>fileName = ''/p/gen.ts'', statements = ?stmts\<rparr>, no_globals, ?fs)"
    by (simp add: demo_unit_def)
  have e: "statements (demo_unit ''/p/gen.ts'') \<noteq> ?stmts"
    by (simp add: demo_unit_def demo_ask_def)
  have f: "demo_fs ''/p/askit/gen.ts.jsonl'' = None"
    by (simp add: demo_fs_def)
  have g: "?fs ''/p/askit/gen.ts.jsonl'' = Some (File ''f1'')"
    by simp
  from a b c e f g show ?thesis by blast
qed

text \<open>
  C6. Two units pass through the transform, one after the other, from drained
  accumulators. The first, \<^verbatim>\<open>/p/gen.ts\<close>, has no file on disk; its statement is
  \<^verbatim>\<open>ask<number>('Add {{x}} and {{y}}');\<close> and the generated module \<^verbatim>\<open>/p/askit/f1.ts\<close>
  exists, so the traversal pushes the import of \<open>f1\<close>, and \<^verbatim>\<open>update\<close> returns on its
  skip branch without draining the pending imports. The second, \<^verbatim>\<open>/p/a.ts\<close>, exists on
  disk and its statement \<^verbatim>\<open>console.log(x);\<close> holds no marker call: its traversal
  accumulates nothing, and still its statement list starts with the import that the first
  unit left behind, before the eight \<^verbatim>\<open>const\<close> bindings and its own statement.
\<close>

theorem stale_import_in_prologue:
  "transformer demo_host demo_fs_generated no_globals (demo_unit ''/p/gen.ts'') =
     Inr (\<lparr>fileName = ''/p/gen.ts'',
           statements =
             [OtherNode ''ExpressionStatement''
                [CallExpression (PropertyAccessExpression (Identifier ''f1_1'') ''f1'') None
                   [Identifier ''x'', Identifier ''y'']]]\<rparr>,
          \<lparr>pending_functions = [], pending_imports = [ImportDeclaration [''f1''] ''./askit/f1'']\<rparr>,
          demo_fs_generated(''/p/askit/gen.ts.jsonl'' \<mapsto> File ''f1''))
   \<and> existsSync (demo_fs_generated(''/p/askit/gen.ts.jsonl'' \<mapsto> File ''f1'')) ''/p/a.ts''
   \<and> all_markers_list
        [OtherNode ''ExpressionStatement''
           [CallExpression (PropertyAccessExpression (Identifier ''console'') ''log'') None
              [Identifier ''x'']]] = []
   \<and> transformer demo_host (demo_fs_generated(''/p/askit/gen.ts.jsonl'' \<mapsto> File ''f1''))
        \<lparr>pending_functions = [], pending_imports = [ImportDeclaration [''f1''] ''./askit/f1'']\<rparr>
        \<lparr>fileName = ''/p/a.ts'',
         statements =
           [OtherNode ''ExpressionStatement''
              [CallExpression (PropertyAccessExpression (Identifier ''console'') ''log'') None
                 [Identifier ''x'']]]\<rparr> =
     Inr (\<lparr>fileName = ''/p/a.ts'',
           statements =
             [ImportDeclaration [''f1''] ''./askit/f1'',
              VariableStatement ''__type__''
                (PropertyAccessExpression
                   (CallExpression (Identifier ''require'') None [StringLiteral ''ts-askit/types'']) ''type''),
              VariableStatement ''__array__''
                (PropertyAccessExpression
                   (CallExpression (Identifier ''require'') None [StringLiteral ''ts-askit/types'']) ''array''),
              VariableStatement ''__string__''
                (PropertyAccessExpression
                   (CallExpression (Identifier ''require'') None [StringLiteral ''ts-askit/types'']) ''string''),
              VariableStatement ''__number__''
                (PropertyAccessExpression
                   (CallExpression (Identifier ''require'') None [StringLiteral ''ts-askit/types'']) ''number''),
              VariableStatement ''__boolean__''
                (PropertyAccessExpression
                   (CallExpression (Identifier ''require'') None [StringLiteral ''ts-askit/types'']) ''boolean''),
              VariableStatement ''__object__''
                (PropertyAccessExpression
                   (CallExpression (Identifier ''require'') None [StringLiteral ''ts-askit/types'']) ''object''),
              VariableStatement ''__union__''
                (PropertyAccessExpression
                   (CallExpression (Identifier ''require'') None [StringLiteral ''ts-askit/types'']) ''union''),
              VariableStatement ''__literal__''
                (PropertyAccessExpression
                   (CallExpression (Identifier ''require'') None [StringLiteral ''ts-askit/types'']) ''literal''),
              OtherNode ''ExpressionStatement''
                [CallExpression (PropertyAccessExpression (Identifier ''console'') ''log'') None
                   [Identifier ''x'']]]\<rparr>,
          \<lparr>pending_functions = [], pending_imports = []\<rparr>,
          demo_fs_generated(''/p/askit/gen.ts.jsonl'' \<mapsto> File ''f1''))"
proof -
  let ?fs1 = "demo_fs_generated(''/p/askit/gen.ts.jsonl'' \<mapsto> File ''f1'')"
  let ?g1 = "\<lparr>pending_functions = [], pending_imports = [ImportDeclaration [''f1''] ''./askit/f1'']\<rparr>"
  let ?log = "[OtherNode ''ExpressionStatement''
                [CallExpression (PropertyAccessExpression (Identifier ''console'') ''log'') None
                   [Identifier ''x'']]]"
  let ?second = "\<lparr>fileName = ''/p/a.ts'', statements = ?log\<rparr>"
  have d: "demo_dirname ''/p/gen.ts'' = ''/p''"
    by (simp add: demo_dirname_def)
  have b: "path_basename demo_host (fileName (demo_unit ''/p/gen.ts'')) \<noteq> ''<repl>.ts''"
    by (simp add: demo_unit_def demo_host_def demo_basename_def)
  have v: "visitNodes demo_host demo_fs_generated (fileName (demo_unit ''/p/gen.ts'')) ([], no_globals)
             (statements (demo_unit ''/p/gen.ts'')) =
           Inr ([OtherNode ''ExpressionStatement''
                  [CallExpression (PropertyAccessExpression (Identifier ''f1_1'') ''f1'') None
                     [Identifier ''x'', Identifier ''y'']]],
                ([demo_record []], ?g1))"
    using demo_visit_redirect [OF d] by (simp add: demo_unit_def)
  have w: "saveInfo demo_host demo_fs_generated (fileName (demo_unit ''/p/gen.ts'')) [demo_record []] =
             Inr ?fs1"
    using demo_saveInfo_generated by (simp add: demo_unit_def)
  have n: "\<not> existsSync ?fs1 (fileName (demo_unit ''/p/gen.ts''))"
    by (simp add: demo_unit_def existsSync_def demo_fs_generated_def)
  from transformer_skipped [OF b v w n]
  have first: "transformer demo_host demo_fs_generated no_globals (demo_unit ''/p/gen.ts'') =
     Inr (\<lparr>fileName = ''/p/gen.ts'',
           statements =
             [OtherNode ''ExpressionStatement''
                [CallExpression (PropertyAccessExpression (Identifier ''f1_1'') ''f1'') None
                   [Identifier ''x'', Identifier ''y'']]]\<rparr>,
          ?g1, ?fs1)"
    by (simp add: demo_unit_def)
  have ex: "existsSync ?fs1 ''/p/a.ts''"
    by (simp add: existsSync_def demo_fs_generated_def)
  have am: "all_markers_list ?log = []"
    by (simp add: isMarker_def isAskCall_def isDefineCall_def)
  have om: "outer_markers_list ?log = []"
    by (simp add: isMarker_def isAskCall_def isDefineCall_def)
  have v2: "visitNodes demo_host ?fs1 (fileName ?second) ([], ?g1) (statements ?second) =
              Inr (?log, ([], ?g1))"
    using visit_no_markers(2) [OF om] by simp
  have w2: "saveInfo demo_host ?fs1 (fileName ?second) [] = Inr ?fs1"
    by (rule saveInfo_empty)
  have ex2: "existsSync ?fs1 (fileName ?second)"
    using ex by simp
  from transformer_spliced [OF ex2 v2 w2]
  have second: "transformer demo_host ?fs1 ?g1 ?second =
     Inr (\<lparr>fileName = ''/p/a.ts'',
           statements =
             [ImportDeclaration [''f1''] ''./askit/f1'',
              createRequire ''__type__'' ''type'' [''ts-askit/types''],
              createRequire ''__array__'' ''array'' [''ts-askit/types''],
              createRequire ''__string__'' ''string'' [''ts-askit/types''],
              createRequire ''__number__'' ''number'' [''ts-askit/types''],
              createRequire ''__boolean__'' ''boolean'' [''ts-askit/types''],
              createRequire ''__object__'' ''object'' [''ts-askit/types''],
              createRequire ''__union__'' ''union'' [''ts-askit/types''],
              createRequire ''__literal__'' ''literal'' [''ts-askit/types'']] @ ?log\<rparr>,
          \<lparr>pending_functions = [], pending_imports = []\<rparr>, ?fs1)"
    by simp
  from first ex am second show ?thesis
    by (simp add: createRequire_def)
qed

end
